theory Spec2Isabelle
  imports Main
begin

section \<open>Users, exceptions and responses\<close>

text \<open>
  \<open>request.user\<close> is either the framework's anonymous user or a stored user, of which
  the views read the primary key and the staff flag only.
\<close>

datatype requester = AnonymousUser | User nat bool

fun is_authenticated :: "requester \<Rightarrow> bool" where
  "is_authenticated AnonymousUser = False"
| "is_authenticated (User i s) = True"

fun is_staff :: "requester \<Rightarrow> bool" where
  "is_staff AnonymousUser = False"
| "is_staff (User i s) = s"

fun user_pk :: "requester \<Rightarrow> nat option" where
  "user_pk AnonymousUser = None"
| "user_pk (User i s) = Some i"

text \<open>The exceptions the views raise, each with the HTTP status the framework gives it.\<close>

datatype api_exception =
  ValidationError string
  | NotAuthenticated
  | PermissionDenied
  | NotFound

fun status_code :: "api_exception \<Rightarrow> nat" where
  "status_code (ValidationError m) = 400"
| "status_code NotAuthenticated = 401"
| "status_code PermissionDenied = 403"
| "status_code NotFound = 404"

text \<open>
  \<open>self.permission_denied(request)\<close> of the framework's view class: a request without a
  successful authentication raises NotAuthenticated, every other one PermissionDenied.
\<close>

definition permission_denied :: "requester \<Rightarrow> api_exception" where
  "permission_denied u = (if is_authenticated u then PermissionDenied else NotAuthenticated)"

section \<open>The Work ticket\<close>

text \<open>
  Modelled from the spec: the Work model (apps/work/models.py) is not among the sources.
  The fields are the attributes of the spec's data model; \<open>assignee\<close> and \<open>order\<close> hold
  the primary key of the referenced row, and times are timestamps.
\<close>

record work =
  work_pk :: nat
  title :: string
  description :: string
  status :: string
  work_type :: string
  assignee :: "nat option"
  order :: "nat option"
  due_date :: "nat option"
  completed_at :: "nat option"

text \<open>
  Modelled from the spec: the members of \<open>Work.WorkStatus\<close> that the spec names
  (PENDING, the implied initial status, and COMPLETED).
\<close>

definition WorkStatus_PENDING :: string where
  "WorkStatus_PENDING = ''PENDING''"

definition WorkStatus_COMPLETED :: string where
  "WorkStatus_COMPLETED = ''COMPLETED''"

text \<open>
  A dictionary over the keys of a ticket (\<open>request.data\<close>, \<open>serializer.validated_data\<close>):
  a field is \<open>None\<close> when the key is absent, \<open>Some v\<close> when it is present with value
  \<open>v\<close>; for a nullable field \<open>Some None\<close> is the key present with the value null.
\<close>

record work_dict =
  key_title :: "string option"
  key_description :: "string option"
  key_status :: "string option"
  key_work_type :: "string option"
  key_assignee :: "nat option option"
  key_order :: "nat option option"
  key_due_date :: "nat option option"
  key_completed_at :: "nat option option"

definition empty_dict :: work_dict where
  "empty_dict = \<lparr> key_title = None, key_description = None, key_status = None,
     key_work_type = None, key_assignee = None, key_order = None, key_due_date = None,
     key_completed_at = None \<rparr>"

text \<open>\<open>d.get(key)\<close>: null when the key is absent, its value otherwise.\<close>

fun dict_get :: "'a option option \<Rightarrow> 'a option" where
  "dict_get None = None"
| "dict_get (Some v) = v"

text \<open>
  The body of a request as the serializer receives it: data that
  \<open>is_valid(raise_exception=True)\<close> rejects, with the error detail, or data it accepts.
\<close>

datatype request_data = Rejected string | Accepted work_dict

text \<open>
  Modelled from the spec: WorkCreateUpdateSerializer (apps/work/serializers.py) is not
  among the sources. It is taken to be a model serializer over the writable attributes of
  the ticket; \<open>completed_at\<close> is derived (spec, data model), so a \<open>completed_at\<close> key of
  the request body does not reach the validated data.
\<close>

fun is_valid :: "request_data \<Rightarrow> api_exception + work_dict" where
  "is_valid (Rejected m) = Inl (ValidationError m)"
| "is_valid (Accepted d) = Inr (d\<lparr>key_completed_at := None\<rparr>)"

text \<open>
  \<open>serializer.save()\<close> with an instance: the model serializer's update assigns every key
  of the validated data to the instance.
\<close>

definition serializer_update :: "work \<Rightarrow> work_dict \<Rightarrow> work" where
  "serializer_update w d = w\<lparr>
     title := (case key_title d of None \<Rightarrow> title w | Some v \<Rightarrow> v),
     description := (case key_description d of None \<Rightarrow> description w | Some v \<Rightarrow> v),
     status := (case key_status d of None \<Rightarrow> status w | Some v \<Rightarrow> v),
     work_type := (case key_work_type d of None \<Rightarrow> work_type w | Some v \<Rightarrow> v),
     assignee := (case key_assignee d of None \<Rightarrow> assignee w | Some v \<Rightarrow> v),
     order := (case key_order d of None \<Rightarrow> order w | Some v \<Rightarrow> v),
     due_date := (case key_due_date d of None \<Rightarrow> due_date w | Some v \<Rightarrow> v),
     completed_at := (case key_completed_at d of None \<Rightarrow> completed_at w | Some v \<Rightarrow> v)\<rparr>"

text \<open>
  \<open>serializer.save()\<close> without an instance: a new row from the validated data. A key
  that is absent takes the default of the model: the initial status, empty text, null.
\<close>

definition serializer_create :: "nat \<Rightarrow> work_dict \<Rightarrow> work" where
  "serializer_create i d = serializer_update
     \<lparr> work_pk = i, title = [], description = [], status = WorkStatus_PENDING,
       work_type = [], assignee = None, order = None, due_date = None,
       completed_at = None \<rparr> d"

text \<open>The table of tickets, and the three writes of the store that the views use.\<close>

type_synonym work_table = "work list"

definition next_pk :: "work_table \<Rightarrow> nat" where
  "next_pk t = Suc (fold max (map work_pk t) 0)"

definition insert_row :: "work \<Rightarrow> work_table \<Rightarrow> work_table" where
  "insert_row w t = t @ [w]"

definition save_row :: "work \<Rightarrow> work_table \<Rightarrow> work_table" where
  "save_row w t = map (\<lambda>x. if work_pk x = work_pk w then w else x) t"

definition delete_row :: "work \<Rightarrow> work_table \<Rightarrow> work_table" where
  "delete_row w t = filter (\<lambda>x. work_pk x \<noteq> work_pk w) t"

text \<open>
  The success envelope of BaseResponseMixin (not among the sources): the status code, 200
  unless the view gives one, and the data. The message is left out.
\<close>

datatype body = NoData | WorkData work | WorkList "work list"

datatype response = Response nat body

section \<open>The views of apps/work/views.py\<close>

text \<open>
  \<open>self\<close>: the requesting user and the attribute \<open>swagger_fake_view\<close>, which only the
  schema generator sets.
\<close>

record view =
  user :: requester
  swagger_fake_view :: bool

text \<open>
  \<open>assignee = request.user\<close>, as the query filter and the comparison of model instances
  decide it: the same primary key. Null is nobody's.
\<close>

fun is_assignee :: "requester \<Rightarrow> work \<Rightarrow> bool" where
  "is_assignee AnonymousUser w = False"
| "is_assignee (User i s) w = (assignee w = Some i)"

subsection \<open>WorkListCreateView\<close>

text \<open>\<open>select_related\<close> and \<open>only\<close> choose what is loaded of a row, not which rows.\<close>

definition WorkListCreateView_get_queryset :: "view \<Rightarrow> work_table \<Rightarrow> work list" where
  "WorkListCreateView_get_queryset self t =
     (if swagger_fake_view self then []
      else if is_staff (user self) then t
      else filter (is_assignee (user self)) t)"

definition WorkListCreateView_perform_create ::
    "view \<Rightarrow> work_dict \<Rightarrow> work_table \<Rightarrow> work_table \<times> (api_exception + work)" where
  "WorkListCreateView_perform_create self validated_data t =
     (if \<not> is_staff (user self) then (t, Inl (permission_denied (user self)))
      else
        let validated_data' =
              (if dict_get (key_assignee validated_data) = None
               then validated_data\<lparr>key_assignee := Some (user_pk (user self))\<rparr>
               else validated_data);
            w = serializer_create (next_pk t) validated_data'
        in (insert_row w t, Inr w))"

text \<open>
  \<open>post\<close>: the permission class IsAuthenticated, then \<open>create\<close>: validation, then
  \<open>perform_create\<close>, then the envelope with status 201.
\<close>

definition WorkListCreateView_create ::
    "view \<Rightarrow> request_data \<Rightarrow> work_table \<Rightarrow> work_table \<times> (api_exception + response)" where
  "WorkListCreateView_create self data t =
     (if \<not> is_authenticated (user self) then (t, Inl NotAuthenticated)
      else case is_valid data of
        Inl e \<Rightarrow> (t, Inl e)
      | Inr validated_data \<Rightarrow>
          (case WorkListCreateView_perform_create self validated_data t of
             (t', Inl e) \<Rightarrow> (t', Inl e)
           | (t', Inr w) \<Rightarrow> (t', Inr (Response 201 (WorkData w)))))"

subsection \<open>WorkDetailView\<close>

definition WorkDetailView_get_queryset :: "view \<Rightarrow> work_table \<Rightarrow> work list" where
  "WorkDetailView_get_queryset self t =
     (if swagger_fake_view self then []
      else if is_staff (user self) then t
      else filter (is_assignee (user self)) t)"

text \<open>
  \<open>self.get_object()\<close> of the framework: the row of the queryset with the primary key of
  the URL, or NotFound.
\<close>

definition get_object :: "view \<Rightarrow> nat \<Rightarrow> work_table \<Rightarrow> api_exception + work" where
  "get_object self k t =
     (case find (\<lambda>w. work_pk w = k) (WorkDetailView_get_queryset self t) of
        None \<Rightarrow> Inl NotFound
      | Some w \<Rightarrow> Inr w)"

text \<open>
  \<open>perform_update\<close>, with \<open>serializer.instance\<close>, \<open>serializer.validated_data\<close> and the
  value of \<open>timezone.now()\<close> as arguments.
\<close>

definition WorkDetailView_perform_update ::
    "view \<Rightarrow> nat \<Rightarrow> work \<Rightarrow> work_dict \<Rightarrow> work_table \<Rightarrow> work_table \<times> (api_exception + work)" where
  "WorkDetailView_perform_update self now instance validated_data t =
     (if \<not> is_staff (user self) \<and> \<not> is_assignee (user self) instance
      then (t, Inl (permission_denied (user self)))
      else
        let validated_data' =
              (if key_status validated_data \<noteq> None
                  \<and> key_status validated_data = Some WorkStatus_COMPLETED
               then validated_data\<lparr>key_completed_at := Some (Some now)\<rparr>
               else if key_status validated_data \<noteq> None
                  \<and> key_status validated_data \<noteq> Some WorkStatus_COMPLETED
               then validated_data\<lparr>key_completed_at := Some None\<rparr>
               else validated_data);
            w = serializer_update instance validated_data'
        in (save_row w t, Inr w))"

text \<open>
  \<open>put\<close> and \<open>patch\<close>: IsAuthenticated, then \<open>update\<close>: the object, validation,
  \<open>perform_update\<close>, the envelope. The two methods differ in what validation requires,
  which is inside \<open>request_data\<close>.
\<close>

definition WorkDetailView_update ::
    "view \<Rightarrow> nat \<Rightarrow> nat \<Rightarrow> request_data \<Rightarrow> work_table
      \<Rightarrow> work_table \<times> (api_exception + response)" where
  "WorkDetailView_update self now k data t =
     (if \<not> is_authenticated (user self) then (t, Inl NotAuthenticated)
      else case get_object self k t of
        Inl e \<Rightarrow> (t, Inl e)
      | Inr instance \<Rightarrow>
          (case is_valid data of
             Inl e \<Rightarrow> (t, Inl e)
           | Inr validated_data \<Rightarrow>
               (case WorkDetailView_perform_update self now instance validated_data t of
                  (t', Inl e) \<Rightarrow> (t', Inl e)
                | (t', Inr w) \<Rightarrow> (t', Inr (Response 200 (WorkData w))))))"

definition WorkDetailView_perform_destroy ::
    "view \<Rightarrow> work \<Rightarrow> work_table \<Rightarrow> work_table \<times> (api_exception + unit)" where
  "WorkDetailView_perform_destroy self instance t =
     (if \<not> is_staff (user self) \<and> \<not> is_assignee (user self) instance
      then (t, Inl (permission_denied (user self)))
      else (delete_row instance t, Inr ()))"

definition WorkDetailView_destroy ::
    "view \<Rightarrow> nat \<Rightarrow> work_table \<Rightarrow> work_table \<times> (api_exception + response)" where
  "WorkDetailView_destroy self k t =
     (if \<not> is_authenticated (user self) then (t, Inl NotAuthenticated)
      else case get_object self k t of
        Inl e \<Rightarrow> (t, Inl e)
      | Inr instance \<Rightarrow>
          (case WorkDetailView_perform_destroy self instance t of
             (t', Inl e) \<Rightarrow> (t', Inl e)
           | (t', Inr u) \<Rightarrow> (t', Inr (Response 204 NoData))))"

text \<open>\<open>get\<close>: IsAuthenticated, then the framework's retrieve of the object.\<close>

definition WorkDetailView_get ::
    "view \<Rightarrow> nat \<Rightarrow> work_table \<Rightarrow> work_table \<times> (api_exception + response)" where
  "WorkDetailView_get self k t =
     (if \<not> is_authenticated (user self) then (t, Inl NotAuthenticated)
      else case get_object self k t of
        Inl e \<Rightarrow> (t, Inl e)
      | Inr instance \<Rightarrow> (t, Inr (Response 200 (WorkData instance))))"

text \<open>
  The query filter with the anonymous user as its value has no counterpart here: every
  entry point above checks IsAuthenticated first, and \<open>is_assignee\<close> is false for the
  anonymous user.
\<close>


section \<open>The Like subsystem\<close>

text \<open>
  Modelled from the spec: the Like model, its serializer and its views (apps/like) are not
  among the sources, only their tests. A like is a user, a content type and an object id;
  the content type and the object id identify the liked item.
\<close>

record like =
  like_pk :: nat
  like_user :: nat
  content_type :: nat
  object_id :: nat
  created_at :: nat

type_synonym like_table = "like list"

text \<open>
  Modelled from the spec: the record as a response shows it, with the human-readable name
  of the content type, which the table of content types (here a function) derives.
\<close>

record like_data =
  data_id :: nat
  data_content_type :: nat
  data_content_type_name :: string
  data_object_id :: nat
  data_created_at :: nat

definition like_representation :: "(nat \<Rightarrow> string) \<Rightarrow> like \<Rightarrow> like_data" where
  "like_representation model_name l =
     \<lparr> data_id = like_pk l, data_content_type = content_type l,
       data_content_type_name = model_name (content_type l),
       data_object_id = object_id l, data_created_at = created_at l \<rparr>"

datatype like_response = LikeResponse nat "like_data option"

definition already_liked :: string where
  "already_liked = ''You have already liked this item.''"

text \<open>The likes of user \<open>i\<close> on the item \<open>(ct, oid)\<close>.\<close>

definition likes_of :: "nat \<Rightarrow> nat \<Rightarrow> nat \<Rightarrow> like_table \<Rightarrow> like list" where
  "likes_of i ct oid t =
     filter (\<lambda>l. like_user l = i \<and> content_type l = ct \<and> object_id l = oid) t"

definition next_like_pk :: "like_table \<Rightarrow> nat" where
  "next_like_pk t = Suc (fold max (map like_pk t) 0)"

text \<open>
  Modelled from the spec (4.1, create): authenticated users only; a like of the same user
  on the same item is a validation error with the duplicate message; otherwise the like
  is stored and returned with status 201.
\<close>

definition LikeListCreateView_create ::
    "(nat \<Rightarrow> string) \<Rightarrow> requester \<Rightarrow> nat \<Rightarrow> nat \<Rightarrow> nat \<Rightarrow> like_table
      \<Rightarrow> like_table \<times> (api_exception + like_response)" where
  "LikeListCreateView_create model_name u now ct oid t =
     (case u of
        AnonymousUser \<Rightarrow> (t, Inl NotAuthenticated)
      | User i s \<Rightarrow>
          if likes_of i ct oid t \<noteq> [] then (t, Inl (ValidationError already_liked))
          else
            let l = \<lparr> like_pk = next_like_pk t, like_user = i, content_type = ct,
                      object_id = oid, created_at = now \<rparr>
            in (t @ [l], Inr (LikeResponse 201 (Some (like_representation model_name l)))))"

text \<open>
  Modelled from the spec (4.1, destroy): authenticated users only; a missing record is
  404; a user other than the owner receives 403 and the record stays; the owner's delete
  removes it, with status 204.
\<close>

definition LikeDestroyView_destroy ::
    "requester \<Rightarrow> nat \<Rightarrow> like_table \<Rightarrow> like_table \<times> (api_exception + like_response)" where
  "LikeDestroyView_destroy u k t =
     (case u of
        AnonymousUser \<Rightarrow> (t, Inl NotAuthenticated)
      | User i s \<Rightarrow>
          (case find (\<lambda>l. like_pk l = k) t of
             None \<Rightarrow> (t, Inl NotFound)
           | Some l \<Rightarrow>
               if like_user l \<noteq> i then (t, Inl PermissionDenied)
               else (filter (\<lambda>x. like_pk x \<noteq> like_pk l) t, Inr (LikeResponse 204 None))))"

section \<open>Example data\<close>

definition ticket1 :: work where
  "ticket1 = \<lparr> work_pk = 1, title = ''pack'', description = [], status = WorkStatus_PENDING,
     work_type = [], assignee = Some 7, order = Some 3, due_date = None,
     completed_at = None \<rparr>"

definition ticket2 :: work where
  "ticket2 = \<lparr> work_pk = 1, title = [], description = [], status = WorkStatus_COMPLETED,
     work_type = [], assignee = Some 9, order = None, due_date = None,
     completed_at = None \<rparr>"

definition staff_view :: view where
  "staff_view = \<lparr> user = User 9 True, swagger_fake_view = False \<rparr>"

definition assignee_view :: view where
  "assignee_view = \<lparr> user = User 7 False, swagger_fake_view = False \<rparr>"

definition other_view :: view where
  "other_view = \<lparr> user = User 8 False, swagger_fake_view = False \<rparr>"

definition like1 :: like where
  "like1 = \<lparr> like_pk = 1, like_user = 7, content_type = 4, object_id = 3, created_at = 10 \<rparr>"

definition model_name1 :: "nat \<Rightarrow> string" where
  "model_name1 ct = (if ct = 4 then ''order'' else ''user'')"

section \<open>Properties\<close>

subsection \<open>Auxiliary facts\<close>

lemma find_Some_mem: "find P xs = Some x \<Longrightarrow> x \<in> set xs \<and> P x"
  by (induction xs) (auto split: if_splits)

lemma find_filter_distinct:
  "distinct (map f xs) \<Longrightarrow> x \<in> set xs \<Longrightarrow>
   find (\<lambda>y. f y = f x) (filter P xs) = (if P x then Some x else None)"
proof (induction xs)
  case Nil
  then show ?case by simp
next
  case (Cons a xs)
  show ?case
  proof (cases "a = x")
    case True
    with Cons.prems(1) have "\<forall>y\<in>set xs. f y \<noteq> f x" by (auto simp: image_iff)
    then have "find (\<lambda>y. f y = f x) (filter P xs) = None"
      by (simp add: find_None_iff)
    with True show ?thesis by simp
  next
    case False
    with Cons.prems have x: "x \<in> set xs" and d: "distinct (map f xs)" and "f a \<noteq> f x"
      by (auto simp: image_iff)
    with Cons.IH show ?thesis by simp
  qed
qed

lemma get_object_Inr:
  assumes "get_object self k t = Inr w"
  shows "w \<in> set t" and "work_pk w = k" and "\<not> swagger_fake_view self"
    and "is_staff (user self) \<or> is_assignee (user self) w"
  using assms
  by (auto simp: get_object_def WorkDetailView_get_queryset_def
      split: option.splits if_splits dest!: find_Some_mem)

lemma get_object_error: "get_object self k t = Inl e \<Longrightarrow> e = NotFound"
  by (auto simp: get_object_def split: option.splits)

lemma get_object_not_assigned:
  assumes "user self = User i False" and "distinct (map work_pk t)" and "w \<in> set t"
    and "assignee w \<noteq> Some i"
  shows "get_object self (work_pk w) t = Inl NotFound"
proof (cases "swagger_fake_view self")
  case True
  then show ?thesis by (simp add: get_object_def WorkDetailView_get_queryset_def)
next
  case False
  from assms(2,3) have "find (\<lambda>y. work_pk y = work_pk w) (filter (is_assignee (User i False)) t)
      = (if is_assignee (User i False) w then Some w else None)"
    by (rule find_filter_distinct)
  with False assms(1,4) show ?thesis
    by (simp add: get_object_def WorkDetailView_get_queryset_def)
qed

lemma work_pk_serializer_update: "work_pk (serializer_update w d) = work_pk w"
  by (simp add: serializer_update_def)

lemma status_serializer_update:
  "status (serializer_update w d) = (case key_status d of None \<Rightarrow> status w | Some v \<Rightarrow> v)"
  by (simp add: serializer_update_def)

lemma completed_at_serializer_update:
  "completed_at (serializer_update w d) =
     (case key_completed_at d of None \<Rightarrow> completed_at w | Some v \<Rightarrow> v)"
  by (simp add: serializer_update_def)

lemma assignee_serializer_update:
  "assignee (serializer_update w d) = (case key_assignee d of None \<Rightarrow> assignee w | Some v \<Rightarrow> v)"
  by (simp add: serializer_update_def)

lemma assignee_serializer_create:
  "assignee (serializer_create i d) = dict_get (key_assignee d)"
  by (cases "key_assignee d") (simp_all add: serializer_create_def assignee_serializer_update)

lemma save_row_mem: "x \<in> set t \<Longrightarrow> work_pk w = work_pk x \<Longrightarrow> w \<in> set (save_row w t)"
  by (auto simp: save_row_def)


lemma perform_update_denied:
  "\<not> is_staff (user self) \<Longrightarrow> \<not> is_assignee (user self) inst \<Longrightarrow>
   WorkDetailView_perform_update self now inst vd t = (t, Inl (permission_denied (user self)))"
  by (simp add: WorkDetailView_perform_update_def)

lemma perform_update_Inl:
  "WorkDetailView_perform_update self now inst vd t = (t', Inl e) \<Longrightarrow>
   t' = t \<and> \<not> is_staff (user self) \<and> \<not> is_assignee (user self) inst"
  by (auto simp: WorkDetailView_perform_update_def Let_def split: if_splits)

lemma perform_update_Inr:
  assumes "WorkDetailView_perform_update self now inst vd t = (t', Inr w)"
  shows "t' = save_row w t" and "work_pk w = work_pk inst"
    and "is_staff (user self) \<or> is_assignee (user self) inst"
    and "status w = (case key_status vd of None \<Rightarrow> status inst | Some s \<Rightarrow> s)"
    and "completed_at w = (case key_status vd of
            None \<Rightarrow> (case key_completed_at vd of None \<Rightarrow> completed_at inst | Some c \<Rightarrow> c)
          | Some s \<Rightarrow> if s = WorkStatus_COMPLETED then Some now else None)"
proof -
  from assms have ok: "is_staff (user self) \<or> is_assignee (user self) inst"
    by (auto simp: WorkDetailView_perform_update_def split: if_splits)
  then show "is_staff (user self) \<or> is_assignee (user self) inst" .
  define vd' where "vd' =
     (if key_status vd \<noteq> None \<and> key_status vd = Some WorkStatus_COMPLETED
      then vd\<lparr>key_completed_at := Some (Some now)\<rparr>
      else if key_status vd \<noteq> None \<and> key_status vd \<noteq> Some WorkStatus_COMPLETED
      then vd\<lparr>key_completed_at := Some None\<rparr>
      else vd)"
  from assms ok have w: "w = serializer_update inst vd'" and t': "t' = save_row w t"
    by (auto simp: WorkDetailView_perform_update_def Let_def vd'_def)
  show "t' = save_row w t" by (rule t')
  show "work_pk w = work_pk inst" by (simp add: w work_pk_serializer_update)
  have ks: "key_status vd' = key_status vd" by (simp add: vd'_def)
  show "status w = (case key_status vd of None \<Rightarrow> status inst | Some s \<Rightarrow> s)"
    by (simp add: w status_serializer_update ks)
  show "completed_at w = (case key_status vd of
            None \<Rightarrow> (case key_completed_at vd of None \<Rightarrow> completed_at inst | Some c \<Rightarrow> c)
          | Some s \<Rightarrow> if s = WorkStatus_COMPLETED then Some now else None)"
    by (cases "key_status vd") (simp_all add: w completed_at_serializer_update vd'_def)
qed

lemma update_Inr:
  assumes "WorkDetailView_update self now k data t = (t', Inr r)"
  obtains inst d w where "data = Accepted d" "get_object self k t = Inr inst"
    "WorkDetailView_perform_update self now inst (d\<lparr>key_completed_at := None\<rparr>) t = (t', Inr w)"
    "r = Response 200 (WorkData w)" "is_authenticated (user self)"
  using assms
  by (cases data) (auto simp: WorkDetailView_update_def split: if_splits sum.splits prod.splits)

lemma update_Inl:
  assumes "WorkDetailView_update self now k data t = (t', Inl e)"
  shows "t' = t"
  using assms
  by (auto simp: WorkDetailView_update_def split: if_splits sum.splits prod.splits
      dest: perform_update_Inl)

lemma update_not_found:
  "is_authenticated (user self) \<Longrightarrow> get_object self k t = Inl NotFound \<Longrightarrow>
   WorkDetailView_update self now k data t = (t, Inl NotFound)"
  by (simp add: WorkDetailView_update_def)

lemma perform_destroy_denied:
  "\<not> is_staff (user self) \<Longrightarrow> \<not> is_assignee (user self) inst \<Longrightarrow>
   WorkDetailView_perform_destroy self inst t = (t, Inl (permission_denied (user self)))"
  by (simp add: WorkDetailView_perform_destroy_def)

lemma perform_destroy_Inl:
  "WorkDetailView_perform_destroy self inst t = (t', Inl e) \<Longrightarrow>
   t' = t \<and> \<not> is_staff (user self) \<and> \<not> is_assignee (user self) inst"
  by (auto simp: WorkDetailView_perform_destroy_def split: if_splits)

lemma destroy_Inr:
  assumes "WorkDetailView_destroy self k t = (t', Inr r)"
  obtains inst where "get_object self k t = Inr inst" "t' = delete_row inst t"
    "r = Response 204 NoData" "is_authenticated (user self)"
  using assms
  by (auto simp: WorkDetailView_destroy_def WorkDetailView_perform_destroy_def
      split: if_splits sum.splits prod.splits)

lemma destroy_Inl:
  assumes "WorkDetailView_destroy self k t = (t', Inl e)"
  shows "t' = t"
  using assms
  by (auto simp: WorkDetailView_destroy_def split: if_splits sum.splits prod.splits
      dest: perform_destroy_Inl)

lemma destroy_not_found:
  "is_authenticated (user self) \<Longrightarrow> get_object self k t = Inl NotFound \<Longrightarrow>
   WorkDetailView_destroy self k t = (t, Inl NotFound)"
  by (simp add: WorkDetailView_destroy_def)

lemma get_not_found:
  "is_authenticated (user self) \<Longrightarrow> get_object self k t = Inl NotFound \<Longrightarrow>
   WorkDetailView_get self k t = (t, Inl NotFound)"
  by (simp add: WorkDetailView_get_def)

lemma update_never_denied:
  assumes "is_authenticated (user self)"
  shows "snd (WorkDetailView_update self now k data t) \<noteq> Inl PermissionDenied"
proof
  assume a: "snd (WorkDetailView_update self now k data t) = Inl PermissionDenied"
  show False
  proof (cases "get_object self k t")
    case (Inl e)
    then have "e = NotFound" by (rule get_object_error)
    with Inl assms a show False by (simp add: WorkDetailView_update_def)
  next
    case (Inr inst)
    from get_object_Inr(4)[OF Inr] 
    have ok: "is_staff (user self) \<or> is_assignee (user self) inst" .
    show False
    proof (cases data)
      case (Rejected m)
      with Inr assms a show False by (simp add: WorkDetailView_update_def)
    next
      case (Accepted d)
      obtain t' r where p: "WorkDetailView_perform_update self now inst (d\<lparr>key_completed_at := None\<rparr>) t = (t', r)"
        by (cases "WorkDetailView_perform_update self now inst (d\<lparr>key_completed_at := None\<rparr>) t")
      show False
      proof (cases r)
        case (Inl e)
        with p perform_update_Inl ok show False by blast
      next
        case r: (Inr w)
        with p Inr Accepted assms a show False by (simp add: WorkDetailView_update_def)
      qed
    qed
  qed
qed

lemma destroy_never_denied:
  assumes "is_authenticated (user self)"
  shows "snd (WorkDetailView_destroy self k t) \<noteq> Inl PermissionDenied"
proof
  assume a: "snd (WorkDetailView_destroy self k t) = Inl PermissionDenied"
  show False
  proof (cases "get_object self k t")
    case (Inl e)
    then have "e = NotFound" by (rule get_object_error)
    with Inl assms a show False by (simp add: WorkDetailView_destroy_def)
  next
    case (Inr inst)
    from get_object_Inr(4)[OF Inr] 
    have ok: "is_staff (user self) \<or> is_assignee (user self) inst" .
    with Inr assms a show False
      by (auto simp: WorkDetailView_destroy_def WorkDetailView_perform_destroy_def)
  qed
qed

subsection \<open>Evaluation on the example data\<close>

lemmas example_defs = assignee_view_def staff_view_def other_view_def ticket1_def ticket2_def
  empty_dict_def WorkStatus_COMPLETED_def WorkStatus_PENDING_def

lemmas work_view_defs = WorkDetailView_update_def WorkDetailView_destroy_def
  WorkDetailView_get_def get_object_def WorkDetailView_get_queryset_def
  WorkDetailView_perform_update_def WorkDetailView_perform_destroy_def
  WorkListCreateView_create_def WorkListCreateView_perform_create_def
  WorkListCreateView_get_queryset_def serializer_update_def serializer_create_def
  save_row_def delete_row_def insert_row_def next_pk_def permission_denied_def Let_def

subsection \<open>Completion time on update\<close>

lemma get_object_found:
  assumes "\<not> swagger_fake_view self" and "distinct (map work_pk t)" and "inst \<in> set t"
    and "is_staff (user self) \<or> is_assignee (user self) inst"
  shows "get_object self (work_pk inst) t = Inr inst"
proof (cases "is_staff (user self)")
  case True
  from assms(2,3) have "find (\<lambda>y. work_pk y = work_pk inst) (filter (\<lambda>x. True) t)
      = (if True then Some inst else None)"
    by (rule find_filter_distinct)
  with True assms(1) show ?thesis
    by (simp add: get_object_def WorkDetailView_get_queryset_def)
next
  case False
  with assms(4) have a: "is_assignee (user self) inst" by simp
  from assms(2,3) have "find (\<lambda>y. work_pk y = work_pk inst) (filter (is_assignee (user self)) t)
      = (if is_assignee (user self) inst then Some inst else None)"
    by (rule find_filter_distinct)
  with False a assms(1) show ?thesis
    by (simp add: get_object_def WorkDetailView_get_queryset_def)
qed

lemma perform_update_allowed:
  assumes "is_staff (user self) \<or> is_assignee (user self) inst"
  shows "\<exists>w. WorkDetailView_perform_update self now inst vd t = (save_row w t, Inr w)"
  using assms by (auto simp: WorkDetailView_perform_update_def Let_def)

lemma update_authorised:
  assumes u: "user self = User i s" and f: "\<not> swagger_fake_view self"
    and d: "distinct (map work_pk t)" and m: "inst \<in> set t"
    and a: "s \<or> assignee inst = Some i"
  shows "\<exists>w. WorkDetailView_update self now (work_pk inst) (Accepted d) t
               = (save_row w t, Inr (Response 200 (WorkData w)))
           \<and> w \<in> set (save_row w t) \<and> work_pk w = work_pk inst
           \<and> status w = (case key_status d of None \<Rightarrow> status inst | Some st \<Rightarrow> st)
           \<and> completed_at w = (case key_status d of None \<Rightarrow> completed_at inst
                | Some st \<Rightarrow> if st = WorkStatus_COMPLETED then Some now else None)"
proof -
  from u a have ok: "is_staff (user self) \<or> is_assignee (user self) inst" by auto
  from f d m ok have g: "get_object self (work_pk inst) t = Inr inst"
    by (rule get_object_found)
  from perform_update_allowed[OF ok] obtain w where
    p: "WorkDetailView_perform_update self now inst (d\<lparr>key_completed_at := None\<rparr>) t
          = (save_row w t, Inr w)"
    by blast
  from u g p have e: "WorkDetailView_update self now (work_pk inst) (Accepted d) t
               = (save_row w t, Inr (Response 200 (WorkData w)))"
    by (simp add: WorkDetailView_update_def)
  from perform_update_Inr(2)[OF p] have pk: "work_pk w = work_pk inst" .
  from m pk have mem: "w \<in> set (save_row w t)" by (simp add: save_row_mem)
  from perform_update_Inr(4)[OF p]
  have st: "status w = (case key_status d of None \<Rightarrow> status inst | Some st \<Rightarrow> st)" by simp
  from perform_update_Inr(5)[OF p]
  have ca: "completed_at w = (case key_status d of None \<Rightarrow> completed_at inst
                | Some st \<Rightarrow> if st = WorkStatus_COMPLETED then Some now else None)"
    by (cases "key_status d") simp_all
  from e mem pk st ca show ?thesis by blast
qed

text \<open>
  C1. An update (PUT or PATCH) whose validated data include a status, sent by a staff user
  or by the assignee for a ticket of the table, succeeds with 200 and saves a ticket with
  the new status whose \<open>completed_at\<close> is the current time when that status is COMPLETED
  and null for every other status, whatever the ticket held before. The same holds of the
  ticket that any successful update with a status returns.
\<close>

theorem update_status_derives_completed_at:
  assumes "key_status d = Some st"
  shows "(user self = User i s \<and> \<not> swagger_fake_view self \<and> distinct (map work_pk t)
            \<and> inst \<in> set t \<and> (s \<or> assignee inst = Some i)
          \<longrightarrow> (\<exists>w. WorkDetailView_update self now (work_pk inst) (Accepted d) t
                       = (save_row w t, Inr (Response 200 (WorkData w)))
                  \<and> w \<in> set (save_row w t) \<and> work_pk w = work_pk inst \<and> status w = st
                  \<and> completed_at w = (if st = WorkStatus_COMPLETED then Some now else None)))
       \<and> (WorkDetailView_update self now k (Accepted d) t = (t', Inr (Response c (WorkData w')))
          \<longrightarrow> completed_at w' = (if st = WorkStatus_COMPLETED then Some now else None)
              \<and> status w' = st \<and> work_pk w' = k \<and> w' \<in> set t' \<and> t' = save_row w' t)"
proof -
  have total: "user self = User i s \<and> \<not> swagger_fake_view self \<and> distinct (map work_pk t)
            \<and> inst \<in> set t \<and> (s \<or> assignee inst = Some i)
          \<longrightarrow> (\<exists>w. WorkDetailView_update self now (work_pk inst) (Accepted d) t
                       = (save_row w t, Inr (Response 200 (WorkData w)))
                  \<and> w \<in> set (save_row w t) \<and> work_pk w = work_pk inst \<and> status w = st
                  \<and> completed_at w = (if st = WorkStatus_COMPLETED then Some now else None))"
  proof
    assume h: "user self = User i s \<and> \<not> swagger_fake_view self \<and> distinct (map work_pk t)
            \<and> inst \<in> set t \<and> (s \<or> assignee inst = Some i)"
    then have u: "user self = User i s" and f: "\<not> swagger_fake_view self"
      and dd: "distinct (map work_pk t)" and m: "inst \<in> set t"
      and a: "s \<or> assignee inst = Some i"
      by simp_all
    from update_authorised[OF u f dd m a, of now d] assms show "\<exists>w. WorkDetailView_update self now (work_pk inst) (Accepted d) t
                       = (save_row w t, Inr (Response 200 (WorkData w)))
                  \<and> w \<in> set (save_row w t) \<and> work_pk w = work_pk inst \<and> status w = st
                  \<and> completed_at w = (if st = WorkStatus_COMPLETED then Some now else None)"
      by simp
  qed
  have partial: "WorkDetailView_update self now k (Accepted d) t = (t', Inr (Response c (WorkData w')))
          \<longrightarrow> completed_at w' = (if st = WorkStatus_COMPLETED then Some now else None)
              \<and> status w' = st \<and> work_pk w' = k \<and> w' \<in> set t' \<and> t' = save_row w' t"
  proof
    assume e: "WorkDetailView_update self now k (Accepted d) t = (t', Inr (Response c (WorkData w')))"
    then obtain inst' d' w'' where
      d: "Accepted d = Accepted d'" and
      g: "get_object self k t = Inr inst'" and
      p: "WorkDetailView_perform_update self now inst' (d'\<lparr>key_completed_at := None\<rparr>) t = (t', Inr w'')" and
      r: "Response c (WorkData w') = Response 200 (WorkData w'')"
      by (rule update_Inr)
    from d r have [simp]: "d' = d" "w'' = w'" by simp_all
    from perform_update_Inr[OF p] assms get_object_Inr[OF g]
    show "completed_at w' = (if st = WorkStatus_COMPLETED then Some now else None)
              \<and> status w' = st \<and> work_pk w' = k \<and> w' \<in> set t' \<and> t' = save_row w' t"
      by (auto intro: save_row_mem)
  qed
  from total partial show ?thesis by blast
qed

theorem update_status_derives_completed_at_witness:
  "(\<exists>w. WorkDetailView_update assignee_view 50 (work_pk ticket1)
            (Accepted (empty_dict\<lparr>key_status := Some WorkStatus_COMPLETED\<rparr>)) [ticket1]
          = (save_row w [ticket1], Inr (Response 200 (WorkData w)))
        \<and> status w = WorkStatus_COMPLETED \<and> completed_at w = Some 50)
   \<and> (\<exists>w. WorkDetailView_update staff_view 60 (work_pk ticket2)
            (Accepted (empty_dict\<lparr>key_status := Some WorkStatus_PENDING\<rparr>))
            [ticket2\<lparr>completed_at := Some 50\<rparr>]
          = (save_row w [ticket2\<lparr>completed_at := Some 50\<rparr>], Inr (Response 200 (WorkData w)))
        \<and> status w = WorkStatus_PENDING \<and> completed_at w = None)"
proof -
  have k1: "key_status (empty_dict\<lparr>key_status := Some WorkStatus_COMPLETED\<rparr>) = Some WorkStatus_COMPLETED"
    and k2: "key_status (empty_dict\<lparr>key_status := Some WorkStatus_PENDING\<rparr>) = Some WorkStatus_PENDING"
    by simp_all
  have h1: "user assignee_view = User 7 False \<and> \<not> swagger_fake_view assignee_view
      \<and> distinct (map work_pk [ticket1]) \<and> ticket1 \<in> set [ticket1]
      \<and> (False \<or> assignee ticket1 = Some 7)"
    by (simp add: assignee_view_def ticket1_def)
  have h2: "user staff_view = User 9 True \<and> \<not> swagger_fake_view staff_view
      \<and> distinct (map work_pk [ticket2\<lparr>completed_at := Some 50\<rparr>])
      \<and> ticket2\<lparr>completed_at := Some 50\<rparr> \<in> set [ticket2\<lparr>completed_at := Some 50\<rparr>]
      \<and> (True \<or> assignee (ticket2\<lparr>completed_at := Some 50\<rparr>) = Some 9)"
    by (simp add: staff_view_def)
  have ne: "WorkStatus_PENDING \<noteq> WorkStatus_COMPLETED"
    by (simp add: WorkStatus_PENDING_def WorkStatus_COMPLETED_def)
  from update_status_derives_completed_at[
      where self = assignee_view and i = 7 and s = False and t = "[ticket1]"
        and inst = ticket1 and now = 50, OF k1, THEN conjunct1] h1
  have 1: "\<exists>w. WorkDetailView_update assignee_view 50 (work_pk ticket1)
            (Accepted (empty_dict\<lparr>key_status := Some WorkStatus_COMPLETED\<rparr>)) [ticket1]
          = (save_row w [ticket1], Inr (Response 200 (WorkData w)))
        \<and> status w = WorkStatus_COMPLETED \<and> completed_at w = Some 50"
    by auto
  from update_status_derives_completed_at[
      where self = staff_view and i = 9 and s = True
        and t = "[ticket2\<lparr>completed_at := Some 50\<rparr>]"
        and inst = "ticket2\<lparr>completed_at := Some 50\<rparr>" and now = 60,
      OF k2, THEN conjunct1] h2 ne
  have 2: "\<exists>w. WorkDetailView_update staff_view 60 (work_pk ticket2)
            (Accepted (empty_dict\<lparr>key_status := Some WorkStatus_PENDING\<rparr>))
            [ticket2\<lparr>completed_at := Some 50\<rparr>]
          = (save_row w [ticket2\<lparr>completed_at := Some 50\<rparr>], Inr (Response 200 (WorkData w)))
        \<and> status w = WorkStatus_PENDING \<and> completed_at w = None"
    by auto
  from 1 2 show ?thesis by blast
qed

subsection \<open>Creation\<close>

lemma work_pk_serializer_create: "work_pk (serializer_create i d) = i"
  by (simp add: serializer_create_def work_pk_serializer_update)

lemma perform_create_staff:
  assumes "user self = User i True"
  shows "\<exists>w. WorkListCreateView_perform_create self vd t = (t @ [w], Inr w)
           \<and> assignee w = (case dict_get (key_assignee vd) of None \<Rightarrow> Some i | Some a \<Rightarrow> Some a)
           \<and> work_pk w = next_pk t"
proof (cases "dict_get (key_assignee vd)")
  case None
  with assms show ?thesis
    by (simp add: WorkListCreateView_perform_create_def Let_def insert_row_def
        assignee_serializer_create work_pk_serializer_create)
next
  case (Some a)
  with assms show ?thesis
    by (simp add: WorkListCreateView_perform_create_def Let_def insert_row_def
        assignee_serializer_create work_pk_serializer_create)
qed

text \<open>
  C6. A creation request of a staff user with accepted data succeeds with 201, and the
  created ticket's assignee is the requesting staff user when the data give no assignee
  (the key is absent or null), and the given assignee otherwise.
\<close>

theorem create_assignee_defaults_to_creator:
  assumes "user self = User i True"
  shows "\<exists>w. WorkListCreateView_create self (Accepted d) t
               = (t @ [w], Inr (Response 201 (WorkData w)))
           \<and> assignee w = (case dict_get (key_assignee d) of None \<Rightarrow> Some i | Some a \<Rightarrow> Some a)"
proof -
  from perform_create_staff[OF assms, of "d\<lparr>key_completed_at := None\<rparr>" t]
  obtain w where
    p: "WorkListCreateView_perform_create self (d\<lparr>key_completed_at := None\<rparr>) t = (t @ [w], Inr w)"
    and a: "assignee w = (case dict_get (key_assignee d) of None \<Rightarrow> Some i | Some a \<Rightarrow> Some a)"
    by auto
  from p assms have "WorkListCreateView_create self (Accepted d) t
      = (t @ [w], Inr (Response 201 (WorkData w)))"
    by (simp add: WorkListCreateView_create_def)
  with a show ?thesis by blast
qed

theorem create_assignee_defaults_to_creator_witness:
  "user staff_view = User 9 True
   \<and> (\<exists>w. WorkListCreateView_create staff_view (Accepted empty_dict) [ticket1]
               = ([ticket1] @ [w], Inr (Response 201 (WorkData w)))
           \<and> assignee w = Some 9)"
proof -
  have u: "user staff_view = User 9 True" by (simp add: staff_view_def)
  from create_assignee_defaults_to_creator[OF u, of empty_dict "[ticket1]"] u
  show ?thesis by (simp add: empty_dict_def)
qed

text \<open>
  C10. Every successful request to the create endpoint appends exactly one ticket to the
  table, and that ticket has an assignee.
\<close>

theorem created_work_has_assignee:
  assumes "WorkListCreateView_create self data t = (t', Inr r)"
  shows "\<exists>w. t' = t @ [w] \<and> r = Response 201 (WorkData w) \<and> assignee w \<noteq> None"
proof -
  from assms have auth: "is_authenticated (user self)"
    by (auto simp: WorkListCreateView_create_def split: if_splits)
  from assms auth obtain d where data: "data = Accepted d"
    by (cases data) (auto simp: WorkListCreateView_create_def)
  have staff: "is_staff (user self)"
  proof (rule ccontr)
    assume "\<not> is_staff (user self)"
    with assms auth data show False
      by (simp add: WorkListCreateView_create_def WorkListCreateView_perform_create_def)
  qed
  then obtain i where u: "user self = User i True"
    by (cases "user self") auto
  from perform_create_staff[OF u, of "d\<lparr>key_completed_at := None\<rparr>" t]
  obtain w where
    p: "WorkListCreateView_perform_create self (d\<lparr>key_completed_at := None\<rparr>) t = (t @ [w], Inr w)"
    and a: "assignee w = (case dict_get (key_assignee d) of None \<Rightarrow> Some i | Some a \<Rightarrow> Some a)"
    by auto
  from p assms auth data have "t' = t @ [w]" "r = Response 201 (WorkData w)"
    by (simp_all add: WorkListCreateView_create_def)
  moreover from a have "assignee w \<noteq> None" by (simp split: option.splits)
  ultimately show ?thesis by blast
qed

lemma create_example:
  "WorkListCreateView_create staff_view (Accepted empty_dict) []
   = ([serializer_create 1 (empty_dict\<lparr>key_assignee := Some (Some 9)\<rparr>)],
      Inr (Response 201 (WorkData (serializer_create 1 (empty_dict\<lparr>key_assignee := Some (Some 9)\<rparr>)))))"
  by (simp add: work_view_defs example_defs)

theorem created_work_has_assignee_witness:
  "WorkListCreateView_create staff_view (Accepted empty_dict) []
   = ([serializer_create 1 (empty_dict\<lparr>key_assignee := Some (Some 9)\<rparr>)],
      Inr (Response 201 (WorkData (serializer_create 1 (empty_dict\<lparr>key_assignee := Some (Some 9)\<rparr>)))))
   \<and> assignee (serializer_create 1 (empty_dict\<lparr>key_assignee := Some (Some 9)\<rparr>)) \<noteq> None"
proof -
  from created_work_has_assignee[OF create_example] create_example
  show ?thesis by simp
qed

text \<open>
  C5, as the claim states it, at a request body that validation rejects: the non-staff
  requester receives 400, not 403.
\<close>

theorem create_non_staff_rejected_data_counterexample:
  "WorkListCreateView_create other_view (Rejected ''Invalid data.'') [ticket1]
     = ([ticket1], Inl (ValidationError ''Invalid data.''))
   \<and> status_code (ValidationError ''Invalid data.'') = 400
   \<and> ValidationError ''Invalid data.'' \<noteq> PermissionDenied"
  by (simp add: WorkListCreateView_create_def other_view_def)

text \<open>
  C5, amended. A creation request of an authenticated non-staff user is always rejected
  and leaves the table as it was: with 403 (permission denied) when validation accepts
  the data, and with the validation error (400) when it rejects them, since validation
  runs before the staff check.
\<close>

theorem create_non_staff_rejected:
  assumes "user self = User i False"
  shows "WorkListCreateView_create self data t
         = (t, Inl (case data of Rejected m \<Rightarrow> ValidationError m | Accepted d \<Rightarrow> PermissionDenied))"
  using assms
  by (cases data)
    (simp_all add: WorkListCreateView_create_def WorkListCreateView_perform_create_def
      permission_denied_def)

theorem create_non_staff_rejected_witness:
  "user other_view = User 8 False
   \<and> WorkListCreateView_create other_view (Accepted empty_dict) [ticket1]
       = ([ticket1], Inl PermissionDenied)
   \<and> status_code PermissionDenied = 403"
proof -
  have u: "user other_view = User 8 False" by (simp add: other_view_def)
  from create_non_staff_rejected[OF u, of "Accepted empty_dict" "[ticket1]"] u
  show ?thesis by simp
qed

subsection \<open>Scoping of the querysets\<close>

text \<open>
  C7. On a request (the schema generator's fake view apart), the queryset of the list
  operation is the whole table for a staff requester; for a non-staff requester it is the
  table restricted to the tickets whose assignee is the requester, so that a ticket of the
  table is in the result exactly when the requester is its assignee.
\<close>

theorem list_queryset_scoped_by_role:
  assumes "\<not> swagger_fake_view self" and "user self = User i s"
  shows "(s \<longrightarrow> WorkListCreateView_get_queryset self t = t)
       \<and> (\<not> s \<longrightarrow> WorkListCreateView_get_queryset self t = filter (\<lambda>w. assignee w = Some i) t
                \<and> set (WorkListCreateView_get_queryset self t) = {w \<in> set t. assignee w = Some i})"
proof -
  have "is_assignee (User i b) = (\<lambda>w. assignee w = Some i)" for b
    by (rule ext) simp
  with assms show ?thesis
    by (simp add: WorkListCreateView_get_queryset_def)
qed

theorem list_queryset_scoped_by_role_witness:
  "\<not> swagger_fake_view other_view \<and> user other_view = User 8 False
   \<and> WorkListCreateView_get_queryset other_view [ticket1, ticket1\<lparr>work_pk := 2, assignee := Some 8\<rparr>]
       = [ticket1\<lparr>work_pk := 2, assignee := Some 8\<rparr>]"
proof -
  have a: "\<not> swagger_fake_view other_view" and u: "user other_view = User 8 False"
    by (simp_all add: other_view_def)
  from list_queryset_scoped_by_role[OF a u, of "[ticket1, ticket1\<lparr>work_pk := 2, assignee := Some 8\<rparr>]"] a u
  show ?thesis by (simp add: ticket1_def)
qed

text \<open>
  C9. For a non-staff authenticated requester, a ticket of the table that is assigned to
  someone else (or to nobody) is not in the detail view's queryset: retrieve, update and
  delete under its primary key answer 404 and leave the table as it was. Hence no update
  and no delete of such a requester ends in the permission-denied (403) branch of
  \<open>perform_update\<close> or \<open>perform_destroy\<close>.
\<close>

theorem detail_not_found_for_other_assignee:
  assumes "user self = User i False"
    and "distinct (map work_pk t)" and "w \<in> set t" and "assignee w \<noteq> Some i"
  shows "WorkDetailView_get self (work_pk w) t = (t, Inl NotFound)
       \<and> WorkDetailView_update self now (work_pk w) data t = (t, Inl NotFound)
       \<and> WorkDetailView_destroy self (work_pk w) t = (t, Inl NotFound)
       \<and> (\<forall>now' k data'. snd (WorkDetailView_update self now' k data' t) \<noteq> Inl PermissionDenied)
       \<and> (\<forall>k. snd (WorkDetailView_destroy self k t) \<noteq> Inl PermissionDenied)"
proof -
  from assms(1) have auth: "is_authenticated (user self)" by simp
  from assms have nf: "get_object self (work_pk w) t = Inl NotFound"
    by (rule get_object_not_assigned)
  from auth nf have "WorkDetailView_get self (work_pk w) t = (t, Inl NotFound)"
    by (rule get_not_found)
  moreover from auth nf have "WorkDetailView_update self now (work_pk w) data t = (t, Inl NotFound)"
    by (rule update_not_found)
  moreover from auth nf have "WorkDetailView_destroy self (work_pk w) t = (t, Inl NotFound)"
    by (rule destroy_not_found)
  moreover from auth have "\<forall>now' k data'. snd (WorkDetailView_update self now' k data' t) \<noteq> Inl PermissionDenied"
    by (simp add: update_never_denied)
  moreover from auth have "\<forall>k. snd (WorkDetailView_destroy self k t) \<noteq> Inl PermissionDenied"
    by (simp add: destroy_never_denied)
  ultimately show ?thesis by blast
qed

theorem detail_not_found_for_other_assignee_witness:
  "user other_view = User 8 False \<and> distinct (map work_pk [ticket1]) \<and> ticket1 \<in> set [ticket1]
   \<and> assignee ticket1 \<noteq> Some 8
   \<and> WorkDetailView_update other_view 50 (work_pk ticket1) (Accepted empty_dict) [ticket1]
       = ([ticket1], Inl NotFound)
   \<and> WorkDetailView_destroy other_view (work_pk ticket1) [ticket1] = ([ticket1], Inl NotFound)"
proof -
  have u: "user other_view = User 8 False" by (simp add: other_view_def)
  have d: "distinct (map work_pk [ticket1])" by simp
  have m: "ticket1 \<in> set [ticket1]" by simp
  have a: "assignee ticket1 \<noteq> Some 8" by (simp add: ticket1_def)
  from detail_not_found_for_other_assignee[OF u d m a, of 50 "Accepted empty_dict"] u d m a
  show ?thesis by simp
qed

subsection \<open>Who may update and delete\<close>

text \<open>
  C3, as the claim states it, at a non-staff requester who is not the assignee: the update
  and the delete endpoints answer 404, not 403.
\<close>

theorem update_by_other_user_counterexample:
  "WorkDetailView_update other_view 50 1 (Accepted empty_dict) [ticket1] = ([ticket1], Inl NotFound)
   \<and> WorkDetailView_destroy other_view 1 [ticket1] = ([ticket1], Inl NotFound)
   \<and> status_code NotFound = 404
   \<and> \<not> is_staff (user other_view) \<and> \<not> is_assignee (user other_view) ticket1"
  by (simp add: work_view_defs example_defs)

text \<open>
  C3, amended. For an authenticated requester, an update or a delete succeeds only on a
  ticket of the table of which the requester is the assignee, unless the requester is
  staff. \<open>perform_update\<close> and \<open>perform_destroy\<close> answer any other requester with 403
  before any write; through the endpoints such a requester receives 404 instead, since
  the queryset holds the requester's own tickets only. Every error leaves the table, and
  so the ticket, as it was.
\<close>

theorem update_destroy_only_staff_or_assignee:
  assumes "user self = User i s"
  shows "(WorkDetailView_update self now k data t = (t', Inr r)
            \<longrightarrow> (\<exists>w\<in>set t. work_pk w = k \<and> (s \<or> assignee w = Some i)))
       \<and> (WorkDetailView_destroy self k t = (t', Inr r)
            \<longrightarrow> (\<exists>w\<in>set t. work_pk w = k \<and> (s \<or> assignee w = Some i)))
       \<and> (\<not> s \<and> assignee w \<noteq> Some i
            \<longrightarrow> WorkDetailView_perform_update self now w vd t = (t, Inl PermissionDenied)
              \<and> WorkDetailView_perform_destroy self w t = (t, Inl PermissionDenied))
       \<and> (\<not> s \<and> assignee w \<noteq> Some i \<and> distinct (map work_pk t) \<and> w \<in> set t
            \<longrightarrow> WorkDetailView_update self now (work_pk w) data t = (t, Inl NotFound)
              \<and> WorkDetailView_destroy self (work_pk w) t = (t, Inl NotFound))
       \<and> (WorkDetailView_update self now k data t = (t', Inl e) \<longrightarrow> t' = t)
       \<and> (WorkDetailView_destroy self k t = (t', Inl e) \<longrightarrow> t' = t)"
proof -
  from assms have auth: "is_authenticated (user self)" by simp
  have allowed: "\<exists>w\<in>set t. work_pk w = k \<and> (s \<or> assignee w = Some i)"
    if "get_object self k t = Inr inst" for inst
    using get_object_Inr[OF that] assms by auto
  have c1: "WorkDetailView_update self now k data t = (t', Inr r)
            \<longrightarrow> (\<exists>w\<in>set t. work_pk w = k \<and> (s \<or> assignee w = Some i))"
  proof
    assume "WorkDetailView_update self now k data t = (t', Inr r)"
    then obtain inst where "get_object self k t = Inr inst" by (rule update_Inr)
    then show "\<exists>w\<in>set t. work_pk w = k \<and> (s \<or> assignee w = Some i)" by (rule allowed)
  qed
  have c2: "WorkDetailView_destroy self k t = (t', Inr r)
            \<longrightarrow> (\<exists>w\<in>set t. work_pk w = k \<and> (s \<or> assignee w = Some i))"
  proof
    assume "WorkDetailView_destroy self k t = (t', Inr r)"
    then obtain inst where "get_object self k t = Inr inst" by (rule destroy_Inr)
    then show "\<exists>w\<in>set t. work_pk w = k \<and> (s \<or> assignee w = Some i)" by (rule allowed)
  qed
  have c3: "\<not> s \<and> assignee w \<noteq> Some i
            \<longrightarrow> WorkDetailView_perform_update self now w vd t = (t, Inl PermissionDenied)
              \<and> WorkDetailView_perform_destroy self w t = (t, Inl PermissionDenied)"
    using assms by (simp add: perform_update_denied perform_destroy_denied permission_denied_def)
  have c4: "\<not> s \<and> assignee w \<noteq> Some i \<and> distinct (map work_pk t) \<and> w \<in> set t
            \<longrightarrow> WorkDetailView_update self now (work_pk w) data t = (t, Inl NotFound)
              \<and> WorkDetailView_destroy self (work_pk w) t = (t, Inl NotFound)"
  proof
    assume h: "\<not> s \<and> assignee w \<noteq> Some i \<and> distinct (map work_pk t) \<and> w \<in> set t"
    with assms have "user self = User i False" by simp
    with h have "get_object self (work_pk w) t = Inl NotFound"
      by (simp add: get_object_not_assigned)
    with auth show "WorkDetailView_update self now (work_pk w) data t = (t, Inl NotFound)
              \<and> WorkDetailView_destroy self (work_pk w) t = (t, Inl NotFound)"
      by (simp add: update_not_found destroy_not_found)
  qed
  have c5: "WorkDetailView_update self now k data t = (t', Inl e) \<longrightarrow> t' = t"
    by (auto dest: update_Inl)
  have c6: "WorkDetailView_destroy self k t = (t', Inl e) \<longrightarrow> t' = t"
    by (auto dest: destroy_Inl)
  from c1 c2 c3 c4 c5 c6 show ?thesis by blast
qed

lemma destroy_example_assignee:
  "WorkDetailView_destroy assignee_view 1 [ticket1] = ([], Inr (Response 204 NoData))"
  by (simp add: work_view_defs example_defs)

theorem update_destroy_only_staff_or_assignee_witness:
  "user assignee_view = User 7 False
   \<and> WorkDetailView_destroy assignee_view 1 [ticket1] = ([], Inr (Response 204 NoData))
   \<and> (\<exists>w\<in>set [ticket1]. work_pk w = 1 \<and> (False \<or> assignee w = Some 7))
   \<and> WorkDetailView_perform_update assignee_view 50 (ticket1\<lparr>assignee := Some 8\<rparr>) empty_dict [ticket1]
       = ([ticket1], Inl PermissionDenied)
   \<and> WorkDetailView_update assignee_view 50 (work_pk (ticket1\<lparr>assignee := Some 8\<rparr>)) (Accepted empty_dict)
        [ticket1\<lparr>assignee := Some 8\<rparr>] = ([ticket1\<lparr>assignee := Some 8\<rparr>], Inl NotFound)"
proof -
  have u: "user assignee_view = User 7 False" by (simp add: assignee_view_def)
  have a: "assignee (ticket1\<lparr>assignee := Some 8\<rparr>) \<noteq> Some 7" by simp
  from update_destroy_only_staff_or_assignee[OF u,
      of 50 1 "Accepted empty_dict" "[ticket1]" "[]" "Response 204 NoData"
         "ticket1\<lparr>assignee := Some 8\<rparr>" empty_dict NotFound]
    destroy_example_assignee
  have 1: "(\<exists>w\<in>set [ticket1]. work_pk w = 1 \<and> (False \<or> assignee w = Some 7))"
    and 2: "WorkDetailView_perform_update assignee_view 50 (ticket1\<lparr>assignee := Some 8\<rparr>) empty_dict [ticket1]
       = ([ticket1], Inl PermissionDenied)"
    using a by simp_all
  from update_destroy_only_staff_or_assignee[OF u,
      of 50 1 "Accepted empty_dict" "[ticket1\<lparr>assignee := Some 8\<rparr>]" "[]" "Response 204 NoData"
         "ticket1\<lparr>assignee := Some 8\<rparr>" empty_dict NotFound]
  have 3: "WorkDetailView_update assignee_view 50 (work_pk (ticket1\<lparr>assignee := Some 8\<rparr>)) (Accepted empty_dict)
        [ticket1\<lparr>assignee := Some 8\<rparr>] = ([ticket1\<lparr>assignee := Some 8\<rparr>], Inl NotFound)"
    using a by simp
  from u destroy_example_assignee 1 2 3 show ?thesis by blast
qed

subsection \<open>The completion invariant\<close>







subsection \<open>Likes\<close>

text \<open>
  C2. For an authenticated user and an item: when the user's like of the item is stored
  once, a further POST answers 400 with the message "You have already liked this item."
  and the like is still stored once; when the user has no like of the item, the POST
  answers 201 with the created record, which carries the name derived from its content
  type, and the like is then stored once.
\<close>

theorem like_create_once:
  "(length (likes_of i ct oid t) = 1 \<longrightarrow>
      LikeListCreateView_create model_name (User i s) now ct oid t
        = (t, Inl (ValidationError ''You have already liked this item.''))
      \<and> status_code (ValidationError ''You have already liked this item.'') = 400
      \<and> length (likes_of i ct oid (fst (LikeListCreateView_create model_name (User i s) now ct oid t))) = 1)
   \<and> (likes_of i ct oid t = [] \<longrightarrow>
      (\<exists>l. LikeListCreateView_create model_name (User i s) now ct oid t
              = (t @ [l], Inr (LikeResponse 201 (Some (like_representation model_name l))))
         \<and> like_user l = i \<and> content_type l = ct \<and> object_id l = oid
         \<and> data_content_type_name (like_representation model_name l) = model_name ct
         \<and> length (likes_of i ct oid (t @ [l])) = 1))"
proof -
  have dup: "likes_of i ct oid t \<noteq> [] \<Longrightarrow>
      LikeListCreateView_create model_name (User i s) now ct oid t
        = (t, Inl (ValidationError ''You have already liked this item.''))"
    by (simp add: LikeListCreateView_create_def already_liked_def)
  have a: "length (likes_of i ct oid t) = 1 \<longrightarrow>
      LikeListCreateView_create model_name (User i s) now ct oid t
        = (t, Inl (ValidationError ''You have already liked this item.''))
      \<and> status_code (ValidationError ''You have already liked this item.'') = 400
      \<and> length (likes_of i ct oid (fst (LikeListCreateView_create model_name (User i s) now ct oid t))) = 1"
  proof
    assume one: "length (likes_of i ct oid t) = 1"
    then have "likes_of i ct oid t \<noteq> []" by auto
    from dup[OF this] one show "LikeListCreateView_create model_name (User i s) now ct oid t
        = (t, Inl (ValidationError ''You have already liked this item.''))
      \<and> status_code (ValidationError ''You have already liked this item.'') = 400
      \<and> length (likes_of i ct oid (fst (LikeListCreateView_create model_name (User i s) now ct oid t))) = 1"
      by simp
  qed
  have b: "likes_of i ct oid t = [] \<longrightarrow>
      (\<exists>l. LikeListCreateView_create model_name (User i s) now ct oid t
              = (t @ [l], Inr (LikeResponse 201 (Some (like_representation model_name l))))
         \<and> like_user l = i \<and> content_type l = ct \<and> object_id l = oid
         \<and> data_content_type_name (like_representation model_name l) = model_name ct
         \<and> length (likes_of i ct oid (t @ [l])) = 1)"
  proof
    assume none: "likes_of i ct oid t = []"
    define l where "l = \<lparr> like_pk = next_like_pk t, like_user = i, content_type = ct,
                      object_id = oid, created_at = now \<rparr>"
    from none have "LikeListCreateView_create model_name (User i s) now ct oid t
              = (t @ [l], Inr (LikeResponse 201 (Some (like_representation model_name l))))"
      by (simp add: LikeListCreateView_create_def l_def Let_def)
    moreover have "like_user l = i \<and> content_type l = ct \<and> object_id l = oid"
      by (simp add: l_def)
    moreover have "data_content_type_name (like_representation model_name l) = model_name ct"
      by (simp add: like_representation_def l_def)
    moreover from none have "length (likes_of i ct oid (t @ [l])) = 1"
      by (simp add: likes_of_def l_def)
    ultimately show "\<exists>l. LikeListCreateView_create model_name (User i s) now ct oid t
              = (t @ [l], Inr (LikeResponse 201 (Some (like_representation model_name l))))
         \<and> like_user l = i \<and> content_type l = ct \<and> object_id l = oid
         \<and> data_content_type_name (like_representation model_name l) = model_name ct
         \<and> length (likes_of i ct oid (t @ [l])) = 1"
      by blast
  qed
  from a b show ?thesis by blast
qed

theorem like_create_once_witness:
  "length (likes_of 7 4 3 [like1]) = 1
   \<and> LikeListCreateView_create model_name1 (User 7 False) 20 4 3 [like1]
       = ([like1], Inl (ValidationError ''You have already liked this item.''))
   \<and> likes_of 7 4 3 [] = []
   \<and> (\<exists>l. LikeListCreateView_create model_name1 (User 7 False) 20 4 3 []
              = ([] @ [l], Inr (LikeResponse 201 (Some (like_representation model_name1 l))))
         \<and> data_content_type_name (like_representation model_name1 l) = ''order'')"
proof -
  have one: "length (likes_of 7 4 3 [like1]) = 1" by (simp add: likes_of_def like1_def)
  have none: "likes_of 7 4 3 [] = []" by (simp add: likes_of_def)
  have n: "model_name1 4 = ''order''" by (simp add: model_name1_def)
  from like_create_once[of 7 4 3 "[like1]" model_name1 False 20] one
  have 1: "LikeListCreateView_create model_name1 (User 7 False) 20 4 3 [like1]
       = ([like1], Inl (ValidationError ''You have already liked this item.''))"
    by blast
  from like_create_once[of 7 4 3 "[]" model_name1 False 20] none n
  have 2: "\<exists>l. LikeListCreateView_create model_name1 (User 7 False) 20 4 3 []
              = ([] @ [l], Inr (LikeResponse 201 (Some (like_representation model_name1 l))))
         \<and> data_content_type_name (like_representation model_name1 l) = ''order''"
    by auto
  from one 1 none 2 show ?thesis by blast
qed

text \<open>
  C8. For a stored like and an authenticated user: a DELETE by a user who is not the owner
  answers 403 and leaves the table, and so the like, as it was; a DELETE by the owner
  answers 204 and the like is no longer stored, while every other like is.
\<close>

theorem like_destroy_owner_only:
  assumes "distinct (map like_pk t)" and "l \<in> set t"
  shows "(like_user l \<noteq> i \<longrightarrow>
           LikeDestroyView_destroy (User i s) (like_pk l) t = (t, Inl PermissionDenied)
           \<and> status_code PermissionDenied = 403
           \<and> l \<in> set (fst (LikeDestroyView_destroy (User i s) (like_pk l) t)))
       \<and> (like_user l = i \<longrightarrow>
           (\<exists>t'. LikeDestroyView_destroy (User i s) (like_pk l) t = (t', Inr (LikeResponse 204 None))
              \<and> l \<notin> set t' \<and> set t' = set t - {l}))"
proof -
  from assms have f: "find (\<lambda>y. like_pk y = like_pk l) (filter (\<lambda>x. True) t)
      = (if True then Some l else None)"
    by (rule find_filter_distinct)
  then have found: "find (\<lambda>y. like_pk y = like_pk l) t = Some l" by simp
  have a: "like_user l \<noteq> i \<longrightarrow>
           LikeDestroyView_destroy (User i s) (like_pk l) t = (t, Inl PermissionDenied)
           \<and> status_code PermissionDenied = 403
           \<and> l \<in> set (fst (LikeDestroyView_destroy (User i s) (like_pk l) t))"
    using found assms(2) by (simp add: LikeDestroyView_destroy_def)
  have same_pk: "x = l" if "x \<in> set t" "like_pk x = like_pk l" for x
    using assms that by (meson distinct_map inj_onD)
  have "set (filter (\<lambda>x. like_pk x \<noteq> like_pk l) t) = set t - {l}"
    using same_pk by auto
  then have b: "like_user l = i \<longrightarrow>
           (\<exists>t'. LikeDestroyView_destroy (User i s) (like_pk l) t = (t', Inr (LikeResponse 204 None))
              \<and> l \<notin> set t' \<and> set t' = set t - {l})"
    using found by (simp add: LikeDestroyView_destroy_def)
  from a b show ?thesis by blast
qed

theorem like_destroy_owner_only_witness:
  "distinct (map like_pk [like1]) \<and> like1 \<in> set [like1]
   \<and> like_user like1 \<noteq> 8
   \<and> LikeDestroyView_destroy (User 8 False) (like_pk like1) [like1] = ([like1], Inl PermissionDenied)
   \<and> like_user like1 = 7
   \<and> (\<exists>t'. LikeDestroyView_destroy (User 7 False) (like_pk like1) [like1]
              = (t', Inr (LikeResponse 204 None)) \<and> like1 \<notin> set t')"
proof -
  have d: "distinct (map like_pk [like1])" and m: "like1 \<in> set [like1]" by simp_all
  have o: "like_user like1 \<noteq> 8" "like_user like1 = 7" by (simp_all add: like1_def)
  from like_destroy_owner_only[OF d m, of 8 False] o
  have 1: "LikeDestroyView_destroy (User 8 False) (like_pk like1) [like1] = ([like1], Inl PermissionDenied)"
    by blast
  from like_destroy_owner_only[OF d m, of 7 False] o
  have 2: "\<exists>t'. LikeDestroyView_destroy (User 7 False) (like_pk like1) [like1]
              = (t', Inr (LikeResponse 204 None)) \<and> like1 \<notin> set t'"
    by blast
  from d m o 1 2 show ?thesis by blast
qed

end
